theory Spec2Isabelle
  imports Complex_Main "HOL-Library.AList"
begin

section \<open>Values, documents and Python dictionaries\<close>

text \<open>
  Documents, filter documents and analysis payloads are JSON-like values. A Python
  \<open>dict\<close> is an association list with distinct keys: assigning to an existing key keeps
  its position, assigning to a new key appends it (\<open>AList.update\<close> does exactly that).
  \<open>JOid\<close> is a store-native \<open>ObjectId\<close>, carried as its hexadecimal text; \<open>JNum\<close> is
  a non-integral number, idealised as an exact rational.
\<close>

datatype jvalue =
    JNull
  | JBool bool
  | JInt int
  | JNum rat
  | JStr string
  | JOid string
  | JList "jvalue list"
  | JDoc "(string \<times> jvalue) list"

type_synonym pydict = "(string \<times> jvalue) list"

text \<open>Exceptions of the Python code. The two \<open>ValueError\<close>s whose message is not ASCII
  in the source carry the name that the message interpolates.\<close>

datatype exn =
    ValueError string
  | UnsupportedOperator string
  | ServiceNotFound string
  | RuntimeError string
  | TypeError
  | AttributeError
  | IndexError string
  | OperationFailure string

text \<open>Python truthiness (\<open>if x:\<close>, \<open>not x\<close>, \<open>bool(x)\<close>).\<close>

fun truthy :: "jvalue \<Rightarrow> bool" where
  "truthy JNull = False"
| "truthy (JBool b) = b"
| "truthy (JInt i) = (i \<noteq> 0)"
| "truthy (JNum r) = (r \<noteq> 0)"
| "truthy (JStr s) = (s \<noteq> [])"
| "truthy (JOid h) = True"
| "truthy (JList xs) = (xs \<noteq> [])"
| "truthy (JDoc d) = (d \<noteq> [])"


text \<open>\<open>str(x)\<close>: the identity on a string, the hexadecimal text of an \<open>ObjectId\<close>; the
  rendering of every other value is the interpreter's and is taken as a parameter.\<close>

definition py_str :: "(jvalue \<Rightarrow> string) \<Rightarrow> jvalue \<Rightarrow> string" where
  "py_str repr v = (case v of JStr s \<Rightarrow> s | JOid h \<Rightarrow> h | _ \<Rightarrow> repr v)"


section \<open>Query builder of analytics-engine 2 (\<open>app/dal/query_builder.py\<close>)\<close>

record builder_e2 =
  query :: pydict
  sort_params :: "(string \<times> int) list option"
  limit_count :: "int option"
  skip_count :: int

text \<open>\<open>MongoQueryBuilder.__init__\<close>.\<close>

definition init_e2 :: builder_e2 where
  "init_e2 = \<lparr>query = [], sort_params = None, limit_count = None, skip_count = 0\<rparr>"

text \<open>\<open>query[field] = clause\<close>.\<close>

definition set_clause_e2 :: "builder_e2 \<Rightarrow> string \<Rightarrow> jvalue \<Rightarrow> builder_e2" where
  "set_clause_e2 b field clause = b\<lparr>query := AList.update field clause (query b)\<rparr>"

text \<open>\<open>options and options.get("case_insensitive")\<close> of the \<open>regex\<close> branch.\<close>

definition case_insensitive_opt :: "pydict option \<Rightarrow> bool" where
  "case_insensitive_opt options =
     (case options of
        None \<Rightarrow> False
      | Some d \<Rightarrow> d \<noteq> [] \<and> (case map_of d ''case_insensitive'' of None \<Rightarrow> False | Some v \<Rightarrow> truthy v))"

text \<open>\<open>MongoQueryBuilder.add_filter\<close>: the chain of \<open>if\<close>/\<open>elif\<close> in the source's order.
  Every recognised operator assigns \<open>query[field]\<close>; the final \<open>else\<close> only logs. No
  branch can raise, so the model returns the builder itself.\<close>

definition add_filter_e2 ::
  "builder_e2 \<Rightarrow> string \<Rightarrow> string \<Rightarrow> jvalue \<Rightarrow> pydict option \<Rightarrow> builder_e2" where
  "add_filter_e2 b field operator v options =
     (if operator = ''eq'' then set_clause_e2 b field v
      else if operator = ''ne'' then set_clause_e2 b field (JDoc [(''$ne'', v)])
      else if operator = ''gt'' then set_clause_e2 b field (JDoc [(''$gt'', v)])
      else if operator = ''gte'' then set_clause_e2 b field (JDoc [(''$gte'', v)])
      else if operator = ''lt'' then set_clause_e2 b field (JDoc [(''$lt'', v)])
      else if operator = ''lte'' then set_clause_e2 b field (JDoc [(''$lte'', v)])
      else if operator = ''in'' then set_clause_e2 b field (JDoc [(''$in'', v)])
      else if operator = ''nin'' then set_clause_e2 b field (JDoc [(''$nin'', v)])
      else if operator = ''exists'' then set_clause_e2 b field (JDoc [(''$exists'', v)])
      else if operator = ''type'' then set_clause_e2 b field (JDoc [(''$type'', v)])
      else if operator = ''regex'' then
        set_clause_e2 b field
          (JDoc [(''$regex'', v),
                 (''$options'', JStr (if case_insensitive_opt options then ''i'' else ''''))])
      else if operator = ''all'' then set_clause_e2 b field (JDoc [(''$all'', v)])
      else if operator = ''size'' then set_clause_e2 b field (JDoc [(''$size'', v)])
      else b)"

text \<open>The operators that \<open>add_filter\<close> of engine 2 recognises.\<close>

definition operators_e2 :: "string list" where
  "operators_e2 = [''eq'', ''ne'', ''gt'', ''gte'', ''lt'', ''lte'', ''in'', ''nin'',
                   ''exists'', ''type'', ''regex'', ''all'', ''size'']"

text \<open>\<open>MongoQueryBuilder.add_elem_match\<close>.\<close>

definition add_elem_match_e2 :: "builder_e2 \<Rightarrow> string \<Rightarrow> pydict \<Rightarrow> builder_e2" where
  "add_elem_match_e2 b field criteria = set_clause_e2 b field (JDoc [(''$elemMatch'', JDoc criteria)])"

text \<open>\<open>MongoQueryBuilder.add_or_condition\<close>: creates the list under \<open>$or\<close> when the key is
  absent, then extends it. Only a list has \<open>extend\<close>; on any other value stored under
  \<open>$or\<close> the attribute lookup raises.\<close>

definition add_or_condition_e2 :: "builder_e2 \<Rightarrow> jvalue list \<Rightarrow> exn + builder_e2" where
  "add_or_condition_e2 b conditions =
     (let q = (if map_of (query b) ''$or'' = None
               then AList.update ''$or'' (JList []) (query b) else query b)
      in case map_of q ''$or'' of
           Some (JList cs) \<Rightarrow> Inr (b\<lparr>query := AList.update ''$or'' (JList (cs @ conditions)) q\<rparr>)
         | _ \<Rightarrow> Inl AttributeError)"

text \<open>\<open>set_sort\<close> (\<open>ASCENDING = 1\<close>, \<open>DESCENDING = -1\<close>; the direction is compared after
  \<open>lower()\<close>, which is taken as a parameter), \<open>set_limit\<close>, \<open>set_skip\<close>.\<close>

definition set_sort_e2 ::
  "(string \<Rightarrow> string) \<Rightarrow> builder_e2 \<Rightarrow> string \<Rightarrow> string \<Rightarrow> builder_e2" where
  "set_sort_e2 lower b field direction =
     (let sort_direction = (if lower direction = ''asc'' then 1 else - 1);
          ps = (case sort_params b of None \<Rightarrow> [] | Some [] \<Rightarrow> [] | Some ps \<Rightarrow> ps)
      in b\<lparr>sort_params := Some (ps @ [(field, sort_direction)])\<rparr>)"

definition set_limit_e2 :: "builder_e2 \<Rightarrow> int \<Rightarrow> builder_e2" where
  "set_limit_e2 b n = b\<lparr>limit_count := Some n\<rparr>"

definition set_skip_e2 :: "builder_e2 \<Rightarrow> int \<Rightarrow> builder_e2" where
  "set_skip_e2 b n = b\<lparr>skip_count := n\<rparr>"


section \<open>Query builder of analytics-engine 1 (\<open>app/dal/data_access_layer.py\<close>)\<close>

record builder_e1 =
  filter_e1 :: pydict
  sort_e1 :: "(string \<times> int) list option"
  limit_e1 :: "int option"
  skip_e1 :: "int option"
  projection_e1 :: "pydict option"

definition init_e1 :: builder_e1 where
  "init_e1 = \<lparr>filter_e1 = [], sort_e1 = None, limit_e1 = None, skip_e1 = None,
              projection_e1 = None\<rparr>"

definition op_map :: "(string \<times> string) list" where
  "op_map = [(''eq'', ''$eq''), (''ne'', ''$ne''), (''gt'', ''$gt''), (''gte'', ''$gte''),
             (''lt'', ''$lt''), (''lte'', ''$lte''), (''in'', ''$in''), (''nin'', ''$nin''),
             (''exists'', ''$exists''), (''type'', ''$type''), (''all'', ''$all''),
             (''size'', ''$size'')]"

text \<open>\<open>self._filter.setdefault(field, {})[key] = v\<close>: the sub-document of \<open>field\<close> (a fresh
  empty one when the field has no clause) gets \<open>key\<close> assigned. A clause that is not a
  dictionary does not take a string key: item assignment raises \<open>TypeError\<close>.\<close>

definition setdefault_assign :: "pydict \<Rightarrow> string \<Rightarrow> string \<Rightarrow> jvalue \<Rightarrow> exn + pydict" where
  "setdefault_assign f field key v =
     (case map_of f field of
        None \<Rightarrow> Inr (AList.update field (JDoc [(key, v)]) f)
      | Some (JDoc d) \<Rightarrow> Inr (AList.update field (JDoc (AList.update key v d)) f)
      | Some _ \<Rightarrow> Inl TypeError)"

text \<open>\<open>MongoQueryBuilder.add_filter\<close> of engine 1. For \<open>regex\<close> the value is a dictionary
  with \<open>pattern\<close> and optionally \<open>options\<close> (\<open>value.get\<close> on anything else raises
  \<open>AttributeError\<close> before the filter is touched). An operator outside \<open>op_map\<close> raises
  \<open>ValueError\<close>.\<close>

definition add_filter_e1 :: "builder_e1 \<Rightarrow> string \<Rightarrow> string \<Rightarrow> jvalue \<Rightarrow> exn + builder_e1" where
  "add_filter_e1 b field operator v =
     (if operator = ''regex'' then
        (case v of
           JDoc vd \<Rightarrow>
             (case setdefault_assign (filter_e1 b) field ''$regex''
                     (case map_of vd ''pattern'' of None \<Rightarrow> JStr '''' | Some p \<Rightarrow> p) of
                Inl e \<Rightarrow> Inl e
              | Inr f \<Rightarrow>
                  (case map_of vd ''options'' of
                     None \<Rightarrow> Inr (b\<lparr>filter_e1 := f\<rparr>)
                   | Some opts \<Rightarrow>
                       (case setdefault_assign f field ''$options'' opts of
                          Inl e \<Rightarrow> Inl e
                        | Inr f' \<Rightarrow> Inr (b\<lparr>filter_e1 := f'\<rparr>))))
         | _ \<Rightarrow> Inl AttributeError)
      else
        (case map_of op_map operator of
           Some key \<Rightarrow>
             (case setdefault_assign (filter_e1 b) field key v of
                Inl e \<Rightarrow> Inl e
              | Inr f \<Rightarrow> Inr (b\<lparr>filter_e1 := f\<rparr>))
         | None \<Rightarrow> Inl (UnsupportedOperator operator)))"

text \<open>\<open>MongoQueryBuilder.add_or_condition\<close> of engine 1: extends the list under \<open>$or\<close>, or
  stores the given list when the key is absent.\<close>

definition add_or_condition_e1 :: "builder_e1 \<Rightarrow> jvalue list \<Rightarrow> exn + builder_e1" where
  "add_or_condition_e1 b conditions =
     (case map_of (filter_e1 b) ''$or'' of
        None \<Rightarrow> Inr (b\<lparr>filter_e1 := AList.update ''$or'' (JList conditions) (filter_e1 b)\<rparr>)
      | Some (JList cs) \<Rightarrow>
          Inr (b\<lparr>filter_e1 := AList.update ''$or'' (JList (cs @ conditions)) (filter_e1 b)\<rparr>)
      | Some _ \<Rightarrow> Inl AttributeError)"

definition set_sort_e1 :: "builder_e1 \<Rightarrow> string \<Rightarrow> int \<Rightarrow> builder_e1" where
  "set_sort_e1 b field direction =
     b\<lparr>sort_e1 := Some ((case sort_e1 b of None \<Rightarrow> [] | Some ps \<Rightarrow> ps) @ [(field, direction)])\<rparr>"

definition set_limit_e1 :: "builder_e1 \<Rightarrow> int option \<Rightarrow> builder_e1" where
  "set_limit_e1 b n = b\<lparr>limit_e1 := n\<rparr>"

definition set_skip_e1 :: "builder_e1 \<Rightarrow> int option \<Rightarrow> builder_e1" where
  "set_skip_e1 b n = b\<lparr>skip_e1 := n\<rparr>"


text \<open>The operators that \<open>add_filter\<close> of engine 1 recognises.\<close>

definition operators_e1 :: "string list" where
  "operators_e1 = ''regex'' # map fst op_map"


section \<open>Filter translation of the CRUD service (\<open>sal_1/dal.py\<close>, \<open>sal_1/models.py\<close>)\<close>


















section \<open>The document store and the terminal \<open>execute\<close>\<close>

text \<open>
  The collection handle is an external collaborator. What the builders use of it is taken
  as a record of capabilities: \<open>find_docs\<close> gives the documents that match a filter
  document, in the store's natural order, or the store's error; \<open>sort_docs\<close> orders
  documents by a list of (field, direction) keys; \<open>aggregate\<close> runs a list of pipeline
  stages.
\<close>

record collection =
  find_docs :: "pydict \<Rightarrow> exn + pydict list"
  sort_docs :: "(string \<times> int) list \<Rightarrow> pydict list \<Rightarrow> pydict list"
  aggregate :: "jvalue list \<Rightarrow> exn + pydict list"

text \<open>\<open>cursor.limit(n)\<close> for \<open>n \<noteq> 0\<close>: the driver sends \<open>abs(n)\<close> as the limit of the find
  command (a negative limit asks for a single batch), so at most \<open>|n|\<close> documents come
  back.\<close>

definition cursor_limit :: "int \<Rightarrow> pydict list \<Rightarrow> pydict list" where
  "cursor_limit n ds = take (nat \<bar>n\<bar>) ds"

text \<open>The stages of \<open>execute\<close> of engine 2, each behind the guard of the source:
  \<open>if self.sort_params\<close>, \<open>if self.skip_count > 0\<close>, \<open>if self.limit_count\<close>.\<close>

definition sort_stage_e2 :: "collection \<Rightarrow> builder_e2 \<Rightarrow> pydict list \<Rightarrow> pydict list" where
  "sort_stage_e2 coll b ds =
     (case sort_params b of
        None \<Rightarrow> ds
      | Some ps \<Rightarrow> if ps \<noteq> [] then sort_docs coll ps ds else ds)"

definition skip_stage_e2 :: "builder_e2 \<Rightarrow> pydict list \<Rightarrow> pydict list" where
  "skip_stage_e2 b ds = (if skip_count b > 0 then drop (nat (skip_count b)) ds else ds)"

definition limit_stage_e2 :: "builder_e2 \<Rightarrow> pydict list \<Rightarrow> pydict list" where
  "limit_stage_e2 b ds =
     (case limit_count b of
        None \<Rightarrow> ds
      | Some n \<Rightarrow> if n \<noteq> 0 then cursor_limit n ds else ds)"

text \<open>The loop over the results: \<open>if "_id" in doc: doc["_id"] = str(doc["_id"])\<close>.\<close>

definition stringify_id :: "(jvalue \<Rightarrow> string) \<Rightarrow> pydict \<Rightarrow> pydict" where
  "stringify_id repr doc =
     (case map_of doc ''_id'' of
        None \<Rightarrow> doc
      | Some v \<Rightarrow> AList.update ''_id'' (JStr (py_str repr v)) doc)"

text \<open>\<open>MongoQueryBuilder.execute\<close> of engine 2. An error of the store is logged and raised
  again.\<close>

definition execute_e2 ::
  "collection \<Rightarrow> (jvalue \<Rightarrow> string) \<Rightarrow> builder_e2 \<Rightarrow> exn + pydict list" where
  "execute_e2 coll repr b =
     (case find_docs coll (query b) of
        Inl e \<Rightarrow> Inl e
      | Inr ds \<Rightarrow>
          Inr (map (stringify_id repr)
                 (limit_stage_e2 b (skip_stage_e2 b (sort_stage_e2 coll b ds)))))"

text \<open>\<open>MongoQueryBuilder.execute_aggregation_pipeline\<close> of engine 2 (every value has
  \<open>__str__\<close>, so the second half of the guard is always true).\<close>

definition execute_aggregation_pipeline_e2 ::
  "collection \<Rightarrow> (jvalue \<Rightarrow> string) \<Rightarrow> jvalue list \<Rightarrow> exn + pydict list" where
  "execute_aggregation_pipeline_e2 coll repr pipeline =
     (case aggregate coll pipeline of
        Inl e \<Rightarrow> Inl e
      | Inr ds \<Rightarrow> Inr (map (stringify_id repr) ds))"

text \<open>\<open>MongoQueryBuilder.execute\<close> of engine 1: the guards are \<open>if self._sort\<close>,
  \<open>if self._skip\<close>, \<open>if self._limit\<close>, and the documents are returned by
  \<open>cursor.to_list(length=self._limit)\<close> as the store gave them. The driver refuses a
  negative skip when \<open>cursor.skip\<close> is called and a length below 1 when \<open>to_list\<close> is
  called, both with \<open>ValueError\<close>, before anything is fetched.\<close>

definition sort_stage_e1 :: "collection \<Rightarrow> builder_e1 \<Rightarrow> pydict list \<Rightarrow> pydict list" where
  "sort_stage_e1 coll b ds =
     (case sort_e1 b of
        None \<Rightarrow> ds
      | Some ps \<Rightarrow> if ps \<noteq> [] then sort_docs coll ps ds else ds)"

definition skip_stage_e1 :: "builder_e1 \<Rightarrow> pydict list \<Rightarrow> pydict list" where
  "skip_stage_e1 b ds =
     (case skip_e1 b of None \<Rightarrow> ds | Some n \<Rightarrow> if n \<noteq> 0 then drop (nat n) ds else ds)"

definition limit_stage_e1 :: "builder_e1 \<Rightarrow> pydict list \<Rightarrow> pydict list" where
  "limit_stage_e1 b ds =
     (case limit_e1 b of None \<Rightarrow> ds | Some n \<Rightarrow> if n \<noteq> 0 then cursor_limit n ds else ds)"

definition to_list :: "int option \<Rightarrow> pydict list \<Rightarrow> pydict list" where
  "to_list len ds = (case len of None \<Rightarrow> ds | Some n \<Rightarrow> take (nat n) ds)"

definition execute_e1 :: "collection \<Rightarrow> builder_e1 \<Rightarrow> exn + pydict list" where
  "execute_e1 coll b =
     (if (case skip_e1 b of None \<Rightarrow> False | Some n \<Rightarrow> n < 0) then
        Inl (ValueError ''The 'skip' parameter must be >= 0'')
      else if (case limit_e1 b of None \<Rightarrow> False | Some n \<Rightarrow> n < 1) then
        Inl (ValueError ''to_list() length must be greater than 0'')
      else
        (case find_docs coll (filter_e1 b) of
           Inl e \<Rightarrow> Inl e
         | Inr ds \<Rightarrow>
             Inr (to_list (limit_e1 b)
                    (limit_stage_e1 b (skip_stage_e1 b (sort_stage_e1 coll b ds))))))"

text \<open>\<open>MongoQueryBuilder.execute_aggregation_pipeline\<close> of engine 1.\<close>

definition execute_aggregation_pipeline_e1 :: "collection \<Rightarrow> jvalue list \<Rightarrow> exn + pydict list" where
  "execute_aggregation_pipeline_e1 coll pipeline_stages = aggregate coll pipeline_stages"


text \<open>A collection of two documents with store-native identifiers, used as a concrete
  input: it matches every filter, keeps its order under every sort and aggregates to
  nothing.\<close>

definition two_documents :: collection where
  "two_documents =
     \<lparr>find_docs = (\<lambda>q. Inr [[(''_id'', JOid ''65a1''), (''n'', JInt 1)],
                              [(''_id'', JOid ''65a2''), (''n'', JInt 2)]]),
      sort_docs = (\<lambda>ps ds. ds),
      aggregate = (\<lambda>p. Inr [])\<rparr>"

text \<open>A collection of three documents, found in the order of their \<open>n\<close>; the store sorts
  them for the key \<open>n\<close> descending by reversing that order.\<close>

definition three_documents :: collection where
  "three_documents =
     \<lparr>find_docs = (\<lambda>q. Inr [[(''_id'', JOid ''65a1''), (''n'', JInt 1)],
                              [(''_id'', JOid ''65a2''), (''n'', JInt 2)],
                              [(''_id'', JOid ''65a3''), (''n'', JInt 3)]]),
      sort_docs = (\<lambda>ps ds. if ps = [(''n'', - 1)] then rev ds else ds),
      aggregate = (\<lambda>p. Inr [])\<rparr>"


section \<open>Analysis services and pipeline manager of analytics-engine 2\<close>

text \<open>
  \<open>AbstractAnalysisService\<close>: a service is its name and its three strategy methods. The
  data frame built from a list of rows is the list of rows. A method that raises returns
  \<open>Inl\<close>.
\<close>

record service_e2 =
  svc_name :: string
  svc_analyze_with_pandas :: "pydict list \<Rightarrow> exn + jvalue"
  svc_build_aggregation_pipeline :: "pydict \<Rightarrow> jvalue list"
  svc_post_process_aggregation :: "pydict list \<Rightarrow> exn + jvalue"

definition no_data_to_analyze :: jvalue where
  "no_data_to_analyze = JDoc [(''message'', JStr ''No data to analyze''), (''result'', JList [])]"

definition no_data_found :: jvalue where
  "no_data_found = JDoc [(''message'', JStr ''No data found''), (''result'', JList [])]"

text \<open>The body of the \<open>try\<close> of \<open>AbstractAnalysisService.process\<close>. The query builder is
  present or \<open>None\<close>; what is used of it is its \<open>execute_aggregation_pipeline\<close>.\<close>

definition process_body ::
  "service_e2 \<Rightarrow> pydict list \<Rightarrow> bool \<Rightarrow> (jvalue list \<Rightarrow> exn + pydict list) option \<Rightarrow>
   pydict option \<Rightarrow> exn + jvalue" where
  "process_body svc data use_aggregation query_builder base_query =
     (case (if use_aggregation then query_builder else None) of
        Some run_pipeline_stages \<Rightarrow>
          (case run_pipeline_stages
                  (svc_build_aggregation_pipeline svc
                     (case base_query of None \<Rightarrow> [] | Some q \<Rightarrow> q)) of
             Inl e \<Rightarrow> Inl e
           | Inr aggregated_data \<Rightarrow>
               if aggregated_data \<noteq> [] then svc_post_process_aggregation svc aggregated_data
               else Inr no_data_found)
      | None \<Rightarrow>
          if data = [] then Inr no_data_to_analyze
          else svc_analyze_with_pandas svc data)"

text \<open>\<open>AbstractAnalysisService.process\<close>: every exception of the body becomes the payload
  \<open>{"error": str(e)}\<close>. The text of an exception is taken as a parameter.\<close>

definition process_e2 ::
  "(exn \<Rightarrow> string) \<Rightarrow> service_e2 \<Rightarrow> pydict list \<Rightarrow> bool \<Rightarrow>
   (jvalue list \<Rightarrow> exn + pydict list) option \<Rightarrow> pydict option \<Rightarrow> jvalue" where
  "process_e2 str_exn svc data use_aggregation query_builder base_query =
     (case process_body svc data use_aggregation query_builder base_query of
        Inl e \<Rightarrow> JDoc [(''error'', JStr (str_exn e))]
      | Inr result \<Rightarrow> result)"



text \<open>The registry of engine 2 (\<open>AVAILABLE_SERVICES\<close> and \<open>get_service\<close>); the two service
  classes are its parameters.\<close>

definition AVAILABLE_SERVICES_e2 :: "service_e2 \<Rightarrow> service_e2 \<Rightarrow> (string \<times> service_e2) list" where
  "AVAILABLE_SERVICES_e2 sales_by_region user_activity_summary =
     [(''sales_by_region'', sales_by_region), (''user_activity_summary'', user_activity_summary)]"

definition get_service :: "(string \<times> service_e2) list \<Rightarrow> string \<Rightarrow> service_e2 option" where
  "get_service registry service_name = map_of registry service_name"

text \<open>Rounding to two decimals, to the nearest value and to the even one at a tie (the
  rule of Python's \<open>round\<close>, of \<open>DataFrame.round\<close> and of \<open>$round\<close>), on exact rationals.\<close>

definition round_half_even :: "rat \<Rightarrow> int" where
  "round_half_even r =
     (let f = \<lfloor>r\<rfloor>; d = r - of_int f
      in if d < 1 / 2 then f else if 1 / 2 < d then f + 1 else if even f then f else f + 1)"

definition round2 :: "rat \<Rightarrow> rat" where
  "round2 x = of_int (round_half_even (x * 100)) / 100"

record analyses_outcome =
  results :: pydict
  execution_times_ms :: "(string \<times> rat) list"
  total_execution_time_ms :: rat

definition service_not_found :: "string \<Rightarrow> jvalue" where
  "service_not_found analysis_name =
     JDoc [(''error'', JStr (''Analysis service '' @ [CHR 0x27] @ analysis_name @ [CHR 0x27] @
                             '' not found''))]"

text \<open>The loop of \<open>PipelineManager.execute_analyses\<close>. \<open>elapsed\<close> gives the measured,
  rounded duration of an analysis. A name without a service gets its error entry and no
  duration (\<open>continue\<close>). The \<open>except\<close> of the loop is not reached from \<open>process\<close>, which
  catches every exception itself.\<close>

fun execute_loop ::
  "(exn \<Rightarrow> string) \<Rightarrow> (string \<times> service_e2) list \<Rightarrow> (string \<Rightarrow> rat) \<Rightarrow> bool \<Rightarrow> pydict list \<Rightarrow>
   (jvalue list \<Rightarrow> exn + pydict list) option \<Rightarrow> pydict option \<Rightarrow>
   pydict \<times> (string \<times> rat) list \<Rightarrow> string list \<Rightarrow> pydict \<times> (string \<times> rat) list" where
  "execute_loop str_exn registry elapsed use_aggregation raw_data query_builder base_query acc [] = acc"
| "execute_loop str_exn registry elapsed use_aggregation raw_data query_builder base_query
     (res, durations) (analysis_name # rest) =
     execute_loop str_exn registry elapsed use_aggregation raw_data query_builder base_query
       (case get_service registry analysis_name of
          None \<Rightarrow> (AList.update analysis_name (service_not_found analysis_name) res, durations)
        | Some service \<Rightarrow>
            (AList.update analysis_name
               (process_e2 str_exn service raw_data use_aggregation query_builder base_query) res,
             AList.update analysis_name (elapsed analysis_name) durations))
       rest"

definition execute_analyses ::
  "(exn \<Rightarrow> string) \<Rightarrow> (string \<times> service_e2) list \<Rightarrow> (string \<Rightarrow> rat) \<Rightarrow> bool \<Rightarrow> pydict list \<Rightarrow>
   string list \<Rightarrow> (jvalue list \<Rightarrow> exn + pydict list) option \<Rightarrow> pydict option \<Rightarrow>
   analyses_outcome" where
  "execute_analyses str_exn registry elapsed use_aggregation raw_data analysis_names
     query_builder base_query =
     (case execute_loop str_exn registry elapsed use_aggregation raw_data query_builder base_query
             ([], []) analysis_names of
        (res, durations) \<Rightarrow>
          \<lparr>results = res, execution_times_ms = durations,
           total_execution_time_ms = round2 (sum_list (map snd durations))\<rparr>)"

text \<open>\<open>PipelineManager.validate_analyses\<close>.\<close>

definition validate_analyses ::
  "(string \<times> service_e2) list \<Rightarrow> string list \<Rightarrow> string list \<times> string list" where
  "validate_analyses registry analysis_names =
     (filter (\<lambda>name. get_service registry name \<noteq> None) analysis_names,
      filter (\<lambda>name. get_service registry name = None) analysis_names)"

text \<open>A service used as a concrete input: both strategies report the number of rows they
  were given.\<close>

definition counting_service :: "string \<Rightarrow> service_e2" where
  "counting_service n =
     \<lparr>svc_name = n,
      svc_analyze_with_pandas = (\<lambda>rows. Inr (JDoc [(''rows'', JInt (int (length rows)))])),
      svc_build_aggregation_pipeline = (\<lambda>q. []),
      svc_post_process_aggregation = (\<lambda>rows. Inr (JDoc [(''rows'', JInt (int (length rows)))]))\<rparr>"


section \<open>Analysis services and pipeline manager of analytics-engine 1\<close>

datatype service_e1 = SalesByRegionService | UserActivitySummaryService | GroupingService

text \<open>The class attribute \<open>FETCH_DATA_FIRST\<close>.\<close>

fun FETCH_DATA_FIRST :: "service_e1 \<Rightarrow> bool" where
  "FETCH_DATA_FIRST SalesByRegionService = True"
| "FETCH_DATA_FIRST UserActivitySummaryService = False"
| "FETCH_DATA_FIRST GroupingService = True"

definition AVAILABLE_SERVICES_e1 :: "(string \<times> service_e1) list" where
  "AVAILABLE_SERVICES_e1 =
     [(''sales_by_region'', SalesByRegionService),
      (''user_activity_summary'', UserActivitySummaryService),
      (''group_and_aggregate'', GroupingService)]"

text \<open>The tabular computations that the two in-memory services of engine 1 hand to the
  data-frame library once their own checks have passed; they are parameters.\<close>

record pandas_e1 =
  sales_summary :: "pydict list \<Rightarrow> exn + jvalue"
  grouping_summary :: "pydict list \<Rightarrow> jvalue \<Rightarrow> jvalue \<Rightarrow> exn + jvalue"

text \<open>The keyword arguments of \<open>process\<close>; \<open>None\<close> is a keyword that was not passed.\<close>

record kwargs =
  kw_params :: "pydict option"
  kw_base_filter :: "pydict option"
  kw_query_builder :: "builder_e1 option"

text \<open>\<open>SalesByRegionService.process\<close> of engine 1.\<close>

definition sales_process :: "pandas_e1 \<Rightarrow> pydict list option \<Rightarrow> exn + jvalue" where
  "sales_process pd data =
     (case data of
        None \<Rightarrow> Inr (JDoc [(''summary'', JStr ''No data provided for analysis.'')])
      | Some rows \<Rightarrow>
          if rows = [] then Inr (JDoc [(''summary'', JStr ''No data provided for analysis.'')])
          else sales_summary pd rows)"

text \<open>\<open>GroupingService.process\<close>: the parameters are validated first, then the rows are
  looked at.\<close>

definition is_list :: "jvalue \<Rightarrow> bool" where
  "is_list v = (case v of JList xs \<Rightarrow> True | _ \<Rightarrow> False)"

definition is_dict :: "jvalue \<Rightarrow> bool" where
  "is_dict v = (case v of JDoc d \<Rightarrow> True | _ \<Rightarrow> False)"

definition grouping_process ::
  "pandas_e1 \<Rightarrow> pydict list option \<Rightarrow> kwargs \<Rightarrow> exn + jvalue" where
  "grouping_process pd data kw =
     (let params = (case kw_params kw of None \<Rightarrow> [] | Some p \<Rightarrow> p);
          group_by_columns = (case map_of params ''group_by_columns'' of None \<Rightarrow> JNull | Some v \<Rightarrow> v);
          aggregations = (case map_of params ''aggregations'' of None \<Rightarrow> JNull | Some v \<Rightarrow> v)
      in if \<not> truthy group_by_columns \<or> \<not> truthy aggregations then
           Inl (ValueError
             ''GroupingService requires 'group_by_columns' (list) and 'aggregations' (dict) in params.'')
         else if \<not> is_list group_by_columns \<or> \<not> is_dict aggregations then
           Inl (ValueError
             ([CHR 0x27] @ ''group_by_columns' must be a list and 'aggregations' must be a dictionary.''))
         else
           (case data of
              None \<Rightarrow> Inr (JDoc [(''summary'', JStr ''No data for analysis.'')])
            | Some rows \<Rightarrow>
                if rows = [] then Inr (JDoc [(''summary'', JStr ''No data for analysis.'')])
                else grouping_summary pd rows group_by_columns aggregations))"

text \<open>\<open>UserActivitySummaryService.process\<close> of engine 1: it needs a query builder, builds
  its pipeline on the base filter and returns the rows of the aggregation.\<close>

definition user_activity_pipeline :: "pydict \<Rightarrow> jvalue list" where
  "user_activity_pipeline base_filter =
     (if base_filter \<noteq> [] then [JDoc [(''$match'', JDoc base_filter)]] else []) @
     [JDoc [(''$group'', JDoc [(''_id'', JStr ''$user_id''),
                               (''event_count'', JDoc [(''$sum'', JInt 1)]),
                               (''event_types'', JDoc [(''$addToSet'', JStr ''$event_type'')])])],
      JDoc [(''$sort'', JDoc [(''event_count'', JInt (- 1))])]]"

definition user_activity_process :: "collection \<Rightarrow> kwargs \<Rightarrow> exn + jvalue" where
  "user_activity_process coll kw =
     (case kw_query_builder kw of
        None \<Rightarrow> Inl (RuntimeError ''UserActivitySummaryService requires a query_builder instance.'')
      | Some query_builder \<Rightarrow>
          (case execute_aggregation_pipeline_e1 coll
                  (user_activity_pipeline (case kw_base_filter kw of None \<Rightarrow> [] | Some f \<Rightarrow> f)) of
             Inl e \<Rightarrow> Inl e
           | Inr aggregation_result \<Rightarrow> Inr (JList (map JDoc aggregation_result))))"

text \<open>The \<open>process\<close> entry point of a service of engine 1.\<close>

definition process_e1 ::
  "pandas_e1 \<Rightarrow> collection \<Rightarrow> service_e1 \<Rightarrow> pydict list option \<Rightarrow> kwargs \<Rightarrow> exn + jvalue" where
  "process_e1 pd coll service data kw =
     (case service of
        SalesByRegionService \<Rightarrow> sales_process pd data
      | UserActivitySummaryService \<Rightarrow> user_activity_process coll kw
      | GroupingService \<Rightarrow> grouping_process pd data kw)"

record AnalysisRequest =
  ar_name :: string
  ar_params :: pydict

text \<open>The first loop of \<open>PipelineManager.run_pipeline\<close>: every requested name is looked up,
  in order, and the first one without a service raises \<open>ValueError\<close> naming it.\<close>

fun resolve_services ::
  "AnalysisRequest list \<Rightarrow> exn + (string \<times> pydict \<times> service_e1) list" where
  "resolve_services [] = Inr []"
| "resolve_services (analysis_request # rest) =
     (case map_of AVAILABLE_SERVICES_e1 (ar_name analysis_request) of
        None \<Rightarrow> Inl (ServiceNotFound (ar_name analysis_request))
      | Some service_class \<Rightarrow>
          (case resolve_services rest of
             Inl e \<Rightarrow> Inl e
           | Inr services_to_run \<Rightarrow>
               Inr ((ar_name analysis_request, ar_params analysis_request, service_class)
                    # services_to_run)))"

text \<open>The call of one service in the second loop: a service that fetches first gets the
  raw rows and its parameters, any other gets no rows, the base filter, the query builder
  and its parameters.\<close>

definition invoke_service ::
  "pandas_e1 \<Rightarrow> collection \<Rightarrow> pydict list option \<Rightarrow> builder_e1 \<Rightarrow> pydict \<Rightarrow> service_e1 \<Rightarrow>
   exn + jvalue" where
  "invoke_service pd coll raw_data query_builder params service =
     (if FETCH_DATA_FIRST service then
        process_e1 pd coll service raw_data
          \<lparr>kw_params = Some params, kw_base_filter = None, kw_query_builder = None\<rparr>
      else
        process_e1 pd coll service None
          \<lparr>kw_params = Some params, kw_base_filter = Some (filter_e1 query_builder),
           kw_query_builder = Some query_builder\<rparr>)"

text \<open>The second loop: each service is run in order and its result stored under its name;
  an exception of \<open>process\<close> is not caught here.\<close>

fun run_services ::
  "pandas_e1 \<Rightarrow> collection \<Rightarrow> pydict list option \<Rightarrow> builder_e1 \<Rightarrow> pydict \<Rightarrow>
   (string \<times> pydict \<times> service_e1) list \<Rightarrow> exn + pydict" where
  "run_services pd coll raw_data query_builder res [] = Inr res"
| "run_services pd coll raw_data query_builder res ((name, params, service) # rest) =
     (case invoke_service pd coll raw_data query_builder params service of
        Inl e \<Rightarrow> Inl e
      | Inr r \<Rightarrow> run_services pd coll raw_data query_builder (AList.update name r res) rest)"

text \<open>\<open>PipelineManager.run_pipeline\<close>. \<open>base_query\<close> is what \<open>_build_base_query\<close> gives for
  the request's criteria: the builder, or the exception of one of its calls.\<close>

definition run_pipeline ::
  "pandas_e1 \<Rightarrow> collection \<Rightarrow> exn + builder_e1 \<Rightarrow> AnalysisRequest list \<Rightarrow> exn + pydict" where
  "run_pipeline pd coll base_query requested_analyses =
     (case resolve_services requested_analyses of
        Inl e \<Rightarrow> Inl e
      | Inr services_to_run \<Rightarrow>
          (case base_query of
             Inl e \<Rightarrow> Inl e
           | Inr query_builder \<Rightarrow>
               if list_ex (\<lambda>(name, params, s). FETCH_DATA_FIRST s) services_to_run then
                 (case execute_e1 coll query_builder of
                    Inl e \<Rightarrow> Inl e
                  | Inr raw_data \<Rightarrow>
                      run_services pd coll (Some raw_data) query_builder [] services_to_run)
               else run_services pd coll None query_builder [] services_to_run))"

text \<open>A data-frame library used as a concrete input where no computation is reached.\<close>

definition idle_pandas :: pandas_e1 where
  "idle_pandas = \<lparr>sales_summary = (\<lambda>rows. Inr JNull),
                  grouping_summary = (\<lambda>rows g a. Inr JNull)\<rparr>"


text \<open>Concrete inputs: the message an exception carries, as a rendering of exceptions,
  and a service whose in-memory strategy raises.\<close>

fun exn_message :: "exn \<Rightarrow> string" where
  "exn_message (ValueError m) = m"
| "exn_message (UnsupportedOperator m) = m"
| "exn_message (ServiceNotFound m) = m"
| "exn_message (RuntimeError m) = m"
| "exn_message (OperationFailure m) = m"
| "exn_message (IndexError m) = m"
| "exn_message TypeError = []"
| "exn_message AttributeError = []"

definition failing_service :: "string \<Rightarrow> service_e2" where
  "failing_service n =
     \<lparr>svc_name = n,
      svc_analyze_with_pandas = (\<lambda>rows. Inl (ValueError ''could not convert string to float'')),
      svc_build_aggregation_pipeline = (\<lambda>q. []),
      svc_post_process_aggregation = (\<lambda>rows. Inl (ValueError ''could not convert string to float''))\<rparr>"


chapter \<open>Properties\<close>

section \<open>Unrecognised operators\<close>

lemma add_filter_e2_unknown:
  "operator \<notin> set operators_e2 \<Longrightarrow> add_filter_e2 b field operator v options = b"
  by (simp add: add_filter_e2_def operators_e2_def)

lemma add_filter_e1_unknown:
  "operator \<notin> set operators_e1 \<Longrightarrow>
   add_filter_e1 b field operator v = Inl (UnsupportedOperator operator)"
  by (simp add: add_filter_e1_def operators_e1_def op_map_def)

text \<open>
  Claim C5, as stated, at engine 1: an operator outside the table is not skipped; the call
  raises \<open>ValueError\<close> (here \<open>UnsupportedOperator\<close>) and returns no builder.
\<close>

theorem add_filter_e1_unknown_raises:
  "add_filter_e1 init_e1 ''age'' ''between'' (JInt 3) = Inl (UnsupportedOperator ''between'')"
  by (simp add: add_filter_e1_def op_map_def)

text \<open>
  Claim C5, amended: for every unrecognised operator, \<open>add_filter\<close> of engine 2 returns the
  builder with its filter document (and everything else) unchanged and does not raise;
  \<open>add_filter\<close> of engine 1 raises \<open>ValueError\<close> naming the operator, and no filter is built.
\<close>

theorem unknown_operator_policy:
  "(operator \<notin> set operators_e2 \<longrightarrow> add_filter_e2 b2 field operator v options = b2) \<and>
   (operator \<notin> set operators_e1 \<longrightarrow>
      add_filter_e1 b1 field operator v = Inl (UnsupportedOperator operator))"
  using add_filter_e2_unknown add_filter_e1_unknown by blast

theorem unknown_operator_policy_witness:
  "''between'' \<notin> set operators_e2 \<and> ''between'' \<notin> set operators_e1 \<and>
   add_filter_e2 (set_limit_e2 init_e2 5) ''age'' ''between'' (JInt 3) None = set_limit_e2 init_e2 5 \<and>
   add_filter_e1 init_e1 ''age'' ''between'' (JInt 3) = Inl (UnsupportedOperator ''between'')"
proof -
  have h2: "''between'' \<notin> set operators_e2" by (simp add: operators_e2_def)
  have h1: "''between'' \<notin> set operators_e1" by (simp add: operators_e1_def op_map_def)
  show ?thesis
    using h1 h2
      unknown_operator_policy [of "''between''" "set_limit_e2 init_e2 5" "''age''" "JInt 3" None init_e1]
    by simp
qed


section \<open>Accumulation of OR conditions\<close>

lemma add_or_condition_e2_fresh:
  "map_of (query b) ''$or'' = None \<Longrightarrow>
   \<exists>b'. add_or_condition_e2 b cs = Inr b' \<and> map_of (query b') ''$or'' = Some (JList cs)"
  by (simp add: add_or_condition_e2_def Let_def update_conv')

lemma add_or_condition_e2_extend:
  "map_of (query b) ''$or'' = Some (JList cs0) \<Longrightarrow>
   \<exists>b'. add_or_condition_e2 b cs = Inr b' \<and> map_of (query b') ''$or'' = Some (JList (cs0 @ cs))"
  by (simp add: add_or_condition_e2_def Let_def update_conv')

lemma add_or_condition_e1_fresh:
  "map_of (filter_e1 b) ''$or'' = None \<Longrightarrow>
   \<exists>b'. add_or_condition_e1 b cs = Inr b' \<and> map_of (filter_e1 b') ''$or'' = Some (JList cs)"
  by (simp add: add_or_condition_e1_def update_conv')

lemma add_or_condition_e1_extend:
  "map_of (filter_e1 b) ''$or'' = Some (JList cs0) \<Longrightarrow>
   \<exists>b'. add_or_condition_e1 b cs = Inr b' \<and>
        map_of (filter_e1 b') ''$or'' = Some (JList (cs0 @ cs))"
  by (simp add: add_or_condition_e1_def update_conv')

text \<open>
  Claim C6: in both builders, two calls of \<open>add_or_condition\<close> with the lists \<open>cs1\<close> and
  \<open>cs2\<close> (for instance \<open>[A, B]\<close> and \<open>[C]\<close>) on a builder with no \<open>$or\<close> yet both succeed and
  leave the single flat list \<open>cs1 @ cs2\<close> under the top-level \<open>$or\<close>; and a call on a builder
  whose \<open>$or\<close> list is \<open>cs0\<close> yields \<open>cs0 @ cs\<close>: the earlier clauses are kept, in order.
\<close>

theorem or_conditions_concatenate:
  "(map_of (query b2) ''$or'' = None \<longrightarrow>
      (\<exists>b' b''. add_or_condition_e2 b2 cs1 = Inr b' \<and> add_or_condition_e2 b' cs2 = Inr b'' \<and>
          map_of (query b'') ''$or'' = Some (JList (cs1 @ cs2)))) \<and>
   (map_of (query b2) ''$or'' = Some (JList cs0) \<longrightarrow>
      (\<exists>b'. add_or_condition_e2 b2 cs = Inr b' \<and>
          map_of (query b') ''$or'' = Some (JList (cs0 @ cs)))) \<and>
   (map_of (filter_e1 b1) ''$or'' = None \<longrightarrow>
      (\<exists>b' b''. add_or_condition_e1 b1 cs1 = Inr b' \<and> add_or_condition_e1 b' cs2 = Inr b'' \<and>
          map_of (filter_e1 b'') ''$or'' = Some (JList (cs1 @ cs2)))) \<and>
   (map_of (filter_e1 b1) ''$or'' = Some (JList cs0) \<longrightarrow>
      (\<exists>b'. add_or_condition_e1 b1 cs = Inr b' \<and>
          map_of (filter_e1 b') ''$or'' = Some (JList (cs0 @ cs))))"
proof (intro conjI impI)
  assume "map_of (query b2) ''$or'' = None"
  then obtain b' where 1: "add_or_condition_e2 b2 cs1 = Inr b'"
      "map_of (query b') ''$or'' = Some (JList cs1)"
    using add_or_condition_e2_fresh by blast
  from add_or_condition_e2_extend [OF 1(2), of cs2] 1(1)
  show "\<exists>b' b''. add_or_condition_e2 b2 cs1 = Inr b' \<and> add_or_condition_e2 b' cs2 = Inr b'' \<and>
          map_of (query b'') ''$or'' = Some (JList (cs1 @ cs2))"
    by blast
next
  assume "map_of (query b2) ''$or'' = Some (JList cs0)"
  then show "\<exists>b'. add_or_condition_e2 b2 cs = Inr b' \<and>
          map_of (query b') ''$or'' = Some (JList (cs0 @ cs))"
    by (rule add_or_condition_e2_extend)
next
  assume "map_of (filter_e1 b1) ''$or'' = None"
  then obtain b' where 1: "add_or_condition_e1 b1 cs1 = Inr b'"
      "map_of (filter_e1 b') ''$or'' = Some (JList cs1)"
    using add_or_condition_e1_fresh by blast
  from add_or_condition_e1_extend [OF 1(2), of cs2] 1(1)
  show "\<exists>b' b''. add_or_condition_e1 b1 cs1 = Inr b' \<and> add_or_condition_e1 b' cs2 = Inr b'' \<and>
          map_of (filter_e1 b'') ''$or'' = Some (JList (cs1 @ cs2))"
    by blast
next
  assume "map_of (filter_e1 b1) ''$or'' = Some (JList cs0)"
  then show "\<exists>b'. add_or_condition_e1 b1 cs = Inr b' \<and>
          map_of (filter_e1 b') ''$or'' = Some (JList (cs0 @ cs))"
    by (rule add_or_condition_e1_extend)
qed

theorem or_conditions_concatenate_witness:
  "map_of (query init_e2) ''$or'' = None \<and>
   map_of (filter_e1 init_e1) ''$or'' = None \<and>
   map_of (query \<lparr>query = [(''$or'', JList [JStr ''A'', JStr ''B''])], sort_params = None,
                   limit_count = None, skip_count = 0\<rparr>) ''$or''
     = Some (JList [JStr ''A'', JStr ''B'']) \<and>
   (\<exists>b' b''. add_or_condition_e2 init_e2 [JStr ''A'', JStr ''B''] = Inr b' \<and>
       add_or_condition_e2 b' [JStr ''C''] = Inr b'' \<and>
       map_of (query b'') ''$or'' = Some (JList [JStr ''A'', JStr ''B'', JStr ''C''])) \<and>
   (\<exists>b' b''. add_or_condition_e1 init_e1 [JStr ''A'', JStr ''B''] = Inr b' \<and>
       add_or_condition_e1 b' [JStr ''C''] = Inr b'' \<and>
       map_of (filter_e1 b'') ''$or'' = Some (JList [JStr ''A'', JStr ''B'', JStr ''C'']))"
proof -
  have h2: "map_of (query init_e2) ''$or'' = None" by (simp add: init_e2_def)
  have h1: "map_of (filter_e1 init_e1) ''$or'' = None" by (simp add: init_e1_def)
  show ?thesis
    using h1 h2
      or_conditions_concatenate [of init_e2 "[JStr ''A'', JStr ''B'']" "[JStr ''C'']" "[]" "[]" init_e1]
    by simp
qed

section \<open>Several operators on one field\<close>














section \<open>Escaped literals in the text operators\<close>








section \<open>Identifiers in the rows of \<open>execute\<close>\<close>

lemma stringify_id_is_string:
  "map_of (stringify_id repr doc) ''_id'' = Some v \<Longrightarrow> \<exists>s. v = JStr s"
  by (auto simp: stringify_id_def update_conv' split: option.splits)

lemma execute_e2_shape:
  "execute_e2 coll repr b = Inr docs \<Longrightarrow>
   \<exists>ds. find_docs coll (query b) = Inr ds \<and>
        docs = map (stringify_id repr)
                 (limit_stage_e2 b (skip_stage_e2 b (sort_stage_e2 coll b ds)))"
  by (auto simp: execute_e2_def split: sum.splits)

lemma execute_e2_ids:
  assumes "execute_e2 coll repr b = Inr docs" "doc \<in> set docs" "map_of doc ''_id'' = Some v"
  shows "\<exists>s. v = JStr s"
  using assms stringify_id_is_string by (auto simp: execute_e2_def split: sum.splits)

lemma execute_e1_unchanged:
  assumes "execute_e1 coll b = Inr docs"
  shows "\<exists>ds. find_docs coll (filter_e1 b) = Inr ds \<and> set docs \<subseteq> set (sort_stage_e1 coll b ds)"
proof -
  from assms obtain ds where ds: "find_docs coll (filter_e1 b) = Inr ds"
    and docs: "docs = to_list (limit_e1 b)
                 (limit_stage_e1 b (skip_stage_e1 b (sort_stage_e1 coll b ds)))"
    by (auto simp: execute_e1_def split: if_splits sum.splits)
  have 1: "set (to_list l xs) \<subseteq> set xs" for l xs
    by (auto simp: to_list_def split: option.splits dest: in_set_takeD)
  have 2: "set (limit_stage_e1 b xs) \<subseteq> set xs" for xs
    by (auto simp: limit_stage_e1_def cursor_limit_def split: option.splits dest: in_set_takeD)
  have 3: "set (skip_stage_e1 b xs) \<subseteq> set xs" for xs
    by (auto simp: skip_stage_e1_def split: option.splits dest: in_set_dropD)
  have "set docs \<subseteq> set (sort_stage_e1 coll b ds)"
    unfolding docs using 1 2 3 by blast
  with ds show ?thesis by blast
qed

lemma execute_e1_shape:
  assumes "execute_e1 coll b = Inr docs"
  shows "\<exists>ds. find_docs coll (filter_e1 b) = Inr ds \<and>
           docs = to_list (limit_e1 b)
                    (limit_stage_e1 b (skip_stage_e1 b (sort_stage_e1 coll b ds)))"
  using assms by (auto simp: execute_e1_def split: if_splits sum.splits)

lemma execute_e1_sort_skip_limit:
  assumes "execute_e1 coll b = Inr docs" "sort_e1 b = Some ps" "ps \<noteq> []"
    and "skip_e1 b = Some k" "limit_e1 b = Some n"
  shows "0 \<le> k \<and> 1 \<le> n \<and>
         (\<exists>ds. find_docs coll (filter_e1 b) = Inr ds \<and>
              docs = take (nat n) (drop (nat k) (sort_docs coll ps ds)))"
proof -
  from assms have k: "0 \<le> k" and n: "1 \<le> n"
    by (auto simp: execute_e1_def split: if_splits)
  from execute_e1_shape [OF assms(1)] obtain ds where
    ds: "find_docs coll (filter_e1 b) = Inr ds"
    and docs: "docs = to_list (limit_e1 b)
                 (limit_stage_e1 b (skip_stage_e1 b (sort_stage_e1 coll b ds)))"
    by blast
  have "docs = take (nat n) (drop (nat k) (sort_docs coll ps ds))"
    using docs assms(2-5) k n
    by (simp add: to_list_def limit_stage_e1_def skip_stage_e1_def sort_stage_e1_def
        cursor_limit_def)
  with ds k n show ?thesis by blast
qed

text \<open>
  Claim C7, as stated, at engine 1: \<open>execute\<close> on a fresh builder over a collection of two
  documents returns them with their \<open>_id\<close> still a store-native \<open>ObjectId\<close>, not a string.
\<close>

theorem execute_e1_keeps_object_id:
  "execute_e1 two_documents init_e1
   = Inr [[(''_id'', JOid ''65a1''), (''n'', JInt 1)], [(''_id'', JOid ''65a2''), (''n'', JInt 2)]]"
  by (simp add: execute_e1_def two_documents_def init_e1_def to_list_def limit_stage_e1_def
      skip_stage_e1_def sort_stage_e1_def)

text \<open>
  Claim C7, amended: \<open>execute\<close> of engine 2 returns the documents that match the filter,
  sorted, then skipped, then limited, and in every returned document that has an \<open>_id\<close>
  the \<open>_id\<close> is a string. \<open>execute\<close> of engine 1 applies the same order, sort, then skip,
  then limit, to the documents that match its filter (with a sort, a skip \<open>k\<close> and a limit
  \<open>n\<close> set, it returns the first \<open>n\<close> of the sorted documents after the first \<open>k\<close>) and
  returns documents of the store as they are: it converts no identifier.
\<close>

theorem execute_identifier_conversion:
  "(execute_e2 coll repr b2 = Inr docs \<longrightarrow>
      (\<exists>ds. find_docs coll (query b2) = Inr ds \<and>
            docs = map (stringify_id repr)
                     (limit_stage_e2 b2 (skip_stage_e2 b2 (sort_stage_e2 coll b2 ds)))) \<and>
      (\<forall>doc \<in> set docs. \<forall>v. map_of doc ''_id'' = Some v \<longrightarrow> (\<exists>s. v = JStr s))) \<and>
   (execute_e1 coll b1 = Inr docs1 \<longrightarrow>
      (\<exists>ds. find_docs coll (filter_e1 b1) = Inr ds \<and>
            docs1 = to_list (limit_e1 b1)
                      (limit_stage_e1 b1 (skip_stage_e1 b1 (sort_stage_e1 coll b1 ds))) \<and>
            set docs1 \<subseteq> set (sort_stage_e1 coll b1 ds))) \<and>
   (execute_e1 coll b1 = Inr docs1 \<longrightarrow> sort_e1 b1 = Some ps \<longrightarrow> ps \<noteq> [] \<longrightarrow>
    skip_e1 b1 = Some k \<longrightarrow> limit_e1 b1 = Some n \<longrightarrow>
      0 \<le> k \<and> 1 \<le> n \<and>
      (\<exists>ds. find_docs coll (filter_e1 b1) = Inr ds \<and>
            docs1 = take (nat n) (drop (nat k) (sort_docs coll ps ds))))"
proof (intro conjI impI)
  assume "execute_e2 coll repr b2 = Inr docs"
  then show "\<exists>ds. find_docs coll (query b2) = Inr ds \<and>
            docs = map (stringify_id repr)
                     (limit_stage_e2 b2 (skip_stage_e2 b2 (sort_stage_e2 coll b2 ds)))"
    by (rule execute_e2_shape)
next
  assume "execute_e2 coll repr b2 = Inr docs"
  then show "\<forall>doc \<in> set docs. \<forall>v. map_of doc ''_id'' = Some v \<longrightarrow> (\<exists>s. v = JStr s)"
    using execute_e2_ids [of coll repr b2 docs] by blast
next
  assume e: "execute_e1 coll b1 = Inr docs1"
  from execute_e1_shape [OF e] execute_e1_unchanged [OF e]
  show "\<exists>ds. find_docs coll (filter_e1 b1) = Inr ds \<and>
            docs1 = to_list (limit_e1 b1)
                      (limit_stage_e1 b1 (skip_stage_e1 b1 (sort_stage_e1 coll b1 ds))) \<and>
            set docs1 \<subseteq> set (sort_stage_e1 coll b1 ds)"
    by auto
next
  assume "execute_e1 coll b1 = Inr docs1" "sort_e1 b1 = Some ps" "ps \<noteq> []"
    "skip_e1 b1 = Some k" "limit_e1 b1 = Some n"
  from execute_e1_sort_skip_limit [OF this]
  show "0 \<le> k" "1 \<le> n"
    "\<exists>ds. find_docs coll (filter_e1 b1) = Inr ds \<and>
          docs1 = take (nat n) (drop (nat k) (sort_docs coll ps ds))"
    by blast+
qed

theorem execute_identifier_conversion_witness:
  "execute_e2 three_documents (\<lambda>_. [])
       (set_limit_e2 (set_skip_e2 (set_sort_e2 id init_e2 ''n'' ''desc'') 1) 1)
     = Inr [[(''_id'', JStr ''65a2''), (''n'', JInt 2)]] \<and>
   execute_e1 three_documents
       (set_limit_e1 (set_skip_e1 (set_sort_e1 init_e1 ''n'' (- 1)) (Some 1)) (Some 1))
     = Inr [[(''_id'', JOid ''65a2''), (''n'', JInt 2)]] \<and>
   sort_e1 (set_limit_e1 (set_skip_e1 (set_sort_e1 init_e1 ''n'' (- 1)) (Some 1)) (Some 1))
     = Some [(''n'', - 1)] \<and>
   skip_e1 (set_limit_e1 (set_skip_e1 (set_sort_e1 init_e1 ''n'' (- 1)) (Some 1)) (Some 1))
     = Some 1 \<and>
   limit_e1 (set_limit_e1 (set_skip_e1 (set_sort_e1 init_e1 ''n'' (- 1)) (Some 1)) (Some 1))
     = Some 1 \<and>
   (\<exists>ds. find_docs three_documents
            (query (set_limit_e2 (set_skip_e2 (set_sort_e2 id init_e2 ''n'' ''desc'') 1) 1)) = Inr ds \<and>
      [[(''_id'', JStr ''65a2''), (''n'', JInt 2)]]
        = map (stringify_id (\<lambda>_. []))
            (limit_stage_e2 (set_limit_e2 (set_skip_e2 (set_sort_e2 id init_e2 ''n'' ''desc'') 1) 1)
              (skip_stage_e2 (set_limit_e2 (set_skip_e2 (set_sort_e2 id init_e2 ''n'' ''desc'') 1) 1)
                (sort_stage_e2 three_documents
                   (set_limit_e2 (set_skip_e2 (set_sort_e2 id init_e2 ''n'' ''desc'') 1) 1) ds)))) \<and>
   (\<exists>ds. find_docs three_documents
            (filter_e1 (set_limit_e1 (set_skip_e1 (set_sort_e1 init_e1 ''n'' (- 1)) (Some 1)) (Some 1)))
            = Inr ds \<and>
      [[(''_id'', JOid ''65a2''), (''n'', JInt 2)]]
        = take (nat 1) (drop (nat 1) (sort_docs three_documents [(''n'', - 1)] ds)))"
proof -
  let ?b2 = "set_limit_e2 (set_skip_e2 (set_sort_e2 id init_e2 ''n'' ''desc'') 1) 1"
  let ?b1 = "set_limit_e1 (set_skip_e1 (set_sort_e1 init_e1 ''n'' (- 1)) (Some 1)) (Some 1)"
  have h2: "execute_e2 three_documents (\<lambda>_. []) ?b2
     = Inr [[(''_id'', JStr ''65a2''), (''n'', JInt 2)]]"
    by (simp add: execute_e2_def three_documents_def init_e2_def limit_stage_e2_def
        skip_stage_e2_def sort_stage_e2_def stringify_id_def py_str_def set_limit_e2_def
        set_skip_e2_def set_sort_e2_def cursor_limit_def)
  have h1: "execute_e1 three_documents ?b1 = Inr [[(''_id'', JOid ''65a2''), (''n'', JInt 2)]]"
    by (simp add: execute_e1_def three_documents_def init_e1_def to_list_def limit_stage_e1_def
        skip_stage_e1_def sort_stage_e1_def set_limit_e1_def set_skip_e1_def set_sort_e1_def
        cursor_limit_def)
  have s: "sort_e1 ?b1 = Some [(''n'', - 1)]"
    by (simp add: init_e1_def set_limit_e1_def set_skip_e1_def set_sort_e1_def)
  have k: "skip_e1 ?b1 = Some 1"
    by (simp add: init_e1_def set_limit_e1_def set_skip_e1_def set_sort_e1_def)
  have n: "limit_e1 ?b1 = Some 1"
    by (simp add: init_e1_def set_limit_e1_def set_skip_e1_def set_sort_e1_def)
  have ne: "[(''n'', - 1 :: int)] \<noteq> []" by simp
  note t = execute_identifier_conversion [of three_documents "\<lambda>_. []" ?b2
        "[[(''_id'', JStr ''65a2''), (''n'', JInt 2)]]" ?b1
        "[[(''_id'', JOid ''65a2''), (''n'', JInt 2)]]" "[(''n'', - 1)]" 1 1]
  from t h2 have c2: "\<exists>ds. find_docs three_documents (query ?b2) = Inr ds \<and>
      [[(''_id'', JStr ''65a2''), (''n'', JInt 2)]]
        = map (stringify_id (\<lambda>_. []))
            (limit_stage_e2 ?b2 (skip_stage_e2 ?b2 (sort_stage_e2 three_documents ?b2 ds)))"
    by blast
  from t h1 s k n ne have c1: "\<exists>ds. find_docs three_documents (filter_e1 ?b1) = Inr ds \<and>
      [[(''_id'', JOid ''65a2''), (''n'', JInt 2)]]
        = take (nat 1) (drop (nat 1) (sort_docs three_documents [(''n'', - 1)] ds))"
    by blast
  show ?thesis
    apply (intro conjI)
          apply (rule h2)
         apply (rule h1)
        apply (rule s)
       apply (rule k)
      apply (rule n)
     apply (rule c2)
    apply (rule c1)
    done
qed


section \<open>Limit and skip of zero\<close>




section \<open>The orchestrators: failing analyses and unknown names\<close>

lemma execute_loop_results:
  "map_of (fst (execute_loop str_exn registry elapsed ua raw qb bq (res, durs) names)) n =
     (if n \<in> set names then
        Some (case get_service registry n of
                None \<Rightarrow> service_not_found n
              | Some svc \<Rightarrow> process_e2 str_exn svc raw ua qb bq)
      else map_of res n)"
proof (induction names arbitrary: res durs)
  case Nil show ?case by simp
next
  case (Cons a names)
  show ?case
    by (cases "get_service registry a") (simp_all add: Cons.IH update_conv')
qed

lemma execute_analyses_results:
  assumes "n \<in> set names"
  shows "map_of (results (execute_analyses str_exn registry elapsed ua raw names qb bq)) n =
     Some (case get_service registry n of
             None \<Rightarrow> service_not_found n
           | Some svc \<Rightarrow> process_e2 str_exn svc raw ua qb bq)"
proof -
  obtain res durs where
    e: "execute_loop str_exn registry elapsed ua raw qb bq ([], []) names = (res, durs)"
    by (cases "execute_loop str_exn registry elapsed ua raw qb bq ([], []) names")
  from execute_loop_results [of str_exn registry elapsed ua raw qb bq "[]" "[]" names n] assms e
  show ?thesis by (simp add: execute_analyses_def)
qed

lemma process_e2_error:
  "process_body svc data ua qb bq = Inl e \<Longrightarrow>
   process_e2 str_exn svc data ua qb bq = JDoc [(''error'', JStr (str_exn e))]"
  by (simp add: process_e2_def)

lemma run_services_all_return:
  "run_services pd coll raw qb res svcs = Inr final \<Longrightarrow> (name, params, s) \<in> set svcs \<Longrightarrow>
   \<exists>r. invoke_service pd coll raw qb params s = Inr r"
  by (induction pd coll raw qb res svcs rule: run_services.induct)
     (auto split: sum.splits)

lemma resolve_services_unknown:
  "r \<in> set requested \<Longrightarrow> map_of AVAILABLE_SERVICES_e1 (ar_name r) = None \<Longrightarrow>
   \<exists>n. resolve_services requested = Inl (ServiceNotFound n) \<and> n \<in> ar_name ` set requested \<and>
       map_of AVAILABLE_SERVICES_e1 n = None"
  by (induction requested) (auto split: option.splits sum.splits)

lemma run_services_first_failure:
  assumes "\<forall>(n, p, t) \<in> set pre. \<exists>r. invoke_service pd coll raw qb p t = Inr r"
    and "invoke_service pd coll raw qb params s = Inl e"
  shows "run_services pd coll raw qb res (pre @ (name, params, s) # rest) = Inl e"
  using assms
proof (induction pre arbitrary: res)
  case Nil
  then show ?case by simp
next
  case (Cons x pre)
  obtain n p t where x: "x = (n, p, t)" by (cases x)
  from Cons.prems(1) x obtain r where r: "invoke_service pd coll raw qb p t = Inr r" by auto
  from Cons.prems(1) have
    "\<forall>(n, p, t) \<in> set pre. \<exists>r. invoke_service pd coll raw qb p t = Inr r" by simp
  from Cons.IH [OF this Cons.prems(2)] show ?case using x r by simp
qed

lemma run_pipeline_first_failure:
  assumes "resolve_services requested = Inr (pre @ (name, params, s) # rest)"
    and "list_ex (\<lambda>(name, params, s). FETCH_DATA_FIRST s) (pre @ (name, params, s) # rest) \<longrightarrow>
           execute_e1 coll qb = Inr rows \<and> raw = Some rows"
    and "\<not> list_ex (\<lambda>(name, params, s). FETCH_DATA_FIRST s) (pre @ (name, params, s) # rest) \<longrightarrow>
           raw = None"
    and "\<forall>(n, p, t) \<in> set pre. \<exists>r. invoke_service pd coll raw qb p t = Inr r"
    and "invoke_service pd coll raw qb params s = Inl e"
  shows "run_pipeline pd coll (Inr qb) requested = Inl e"
proof (cases "list_ex (\<lambda>(name, params, s). FETCH_DATA_FIRST s) (pre @ (name, params, s) # rest)")
  case True
  with assms(2) have "execute_e1 coll qb = Inr rows" "raw = Some rows" by blast+
  then show ?thesis
    using True assms(1) run_services_first_failure [OF assms(4,5), of "[]" name rest]
    by (simp add: run_pipeline_def)
next
  case False
  with assms(3) have "raw = None" by blast
  then show ?thesis
    using False assms(1) run_services_first_failure [OF assms(4,5), of "[]" name rest]
    by (simp add: run_pipeline_def)
qed

text \<open>
  Claim C3, as stated, at engine 1: \<open>run_pipeline\<close> for the requests \<open>group_and_aggregate\<close>
  (with no parameters) and \<open>sales_by_region\<close> over two rows raises the \<open>ValueError\<close> of the
  first analysis; there is no result map, no error entry, and the second analysis never
  runs.
\<close>

theorem run_pipeline_aborts_on_exception:
  "run_pipeline idle_pandas two_documents (Inr init_e1)
     [\<lparr>ar_name = ''group_and_aggregate'', ar_params = []\<rparr>,
      \<lparr>ar_name = ''sales_by_region'', ar_params = []\<rparr>]
   = Inl (ValueError
       ''GroupingService requires 'group_by_columns' (list) and 'aggregations' (dict) in params.'')"
  by (simp add: run_pipeline_def AVAILABLE_SERVICES_e1_def execute_e1_def init_e1_def
      two_documents_def invoke_service_def process_e1_def grouping_process_def)

text \<open>
  Claim C3, amended: in \<open>execute_analyses\<close> of engine 2 every requested analysis name has
  an entry in the result map, the payload of its \<open>process\<close> (or the not-found entry), and
  an exception raised inside an analysis is that analysis's entry \<open>{"error": message}\<close>;
  the loop is never aborted. In \<open>run_pipeline\<close> of engine 1 an exception raised inside an
  analysis is not caught: when the requested names are all registered, the base query is
  built, the rows are fetched if a requested service asks for them, and the analyses before
  some analysis return while that analysis raises \<open>e\<close>, then \<open>run_pipeline\<close> raises \<open>e\<close> and
  returns no result map; and the loop over the services returns a result map only when
  every analysis has returned normally.
\<close>

theorem analysis_failure_isolation:
  "(\<forall>n \<in> set names.
      map_of (results (execute_analyses str_exn registry elapsed ua raw names qb bq)) n =
        Some (case get_service registry n of
                None \<Rightarrow> service_not_found n
              | Some svc \<Rightarrow> process_e2 str_exn svc raw ua qb bq)) \<and>
   (process_body svc data ua qb bq = Inl e \<longrightarrow>
      process_e2 str_exn svc data ua qb bq = JDoc [(''error'', JStr (str_exn e))]) \<and>
   (run_services pd coll raw1 b res svcs = Inr final \<longrightarrow>
      (\<forall>(name, params, s) \<in> set svcs. \<exists>r. invoke_service pd coll raw1 b params s = Inr r)) \<and>
   (resolve_services requested = Inr (pre @ (name1, params1, s1) # rest) \<longrightarrow>
    (list_ex (\<lambda>(name, params, s). FETCH_DATA_FIRST s) (pre @ (name1, params1, s1) # rest) \<longrightarrow>
       execute_e1 coll b = Inr rows \<and> raw1 = Some rows) \<longrightarrow>
    (\<not> list_ex (\<lambda>(name, params, s). FETCH_DATA_FIRST s) (pre @ (name1, params1, s1) # rest) \<longrightarrow>
       raw1 = None) \<longrightarrow>
    (\<forall>(name, params, s) \<in> set pre. \<exists>r. invoke_service pd coll raw1 b params s = Inr r) \<longrightarrow>
    invoke_service pd coll raw1 b params1 s1 = Inl e1 \<longrightarrow>
      run_pipeline pd coll (Inr b) requested = Inl e1)"
proof (intro conjI ballI impI)
  fix n assume "n \<in> set names"
  then show "map_of (results (execute_analyses str_exn registry elapsed ua raw names qb bq)) n =
        Some (case get_service registry n of
                None \<Rightarrow> service_not_found n
              | Some svc \<Rightarrow> process_e2 str_exn svc raw ua qb bq)"
    by (rule execute_analyses_results)
next
  assume "process_body svc data ua qb bq = Inl e"
  then show "process_e2 str_exn svc data ua qb bq = JDoc [(''error'', JStr (str_exn e))]"
    by (rule process_e2_error)
next
  fix x assume r: "run_services pd coll raw1 b res svcs = Inr final" and x: "x \<in> set svcs"
  obtain name params s where "x = (name, params, s)" by (cases x)
  with run_services_all_return [OF r, of name params s] x
  show "case x of (name, params, s) \<Rightarrow> \<exists>r. invoke_service pd coll raw1 b params s = Inr r"
    by simp
next
  assume "resolve_services requested = Inr (pre @ (name1, params1, s1) # rest)"
    and "list_ex (\<lambda>(name, params, s). FETCH_DATA_FIRST s) (pre @ (name1, params1, s1) # rest) \<longrightarrow>
       execute_e1 coll b = Inr rows \<and> raw1 = Some rows"
    and "\<not> list_ex (\<lambda>(name, params, s). FETCH_DATA_FIRST s) (pre @ (name1, params1, s1) # rest) \<longrightarrow>
       raw1 = None"
    and "\<forall>(name, params, s) \<in> set pre. \<exists>r. invoke_service pd coll raw1 b params s = Inr r"
    and "invoke_service pd coll raw1 b params1 s1 = Inl e1"
  then show "run_pipeline pd coll (Inr b) requested = Inl e1"
    by (rule run_pipeline_first_failure)
qed

theorem analysis_failure_isolation_witness:
  "process_body (failing_service ''sales_by_region'') [[(''n'', JInt 1)]] False None None
     = Inl (ValueError ''could not convert string to float'') \<and>
   run_services idle_pandas two_documents
       (Some [[(''_id'', JOid ''65a1''), (''n'', JInt 1)], [(''_id'', JOid ''65a2''), (''n'', JInt 2)]])
       init_e1 [] [(''sales_by_region'', [], SalesByRegionService)]
     = Inr [(''sales_by_region'', JNull)] \<and>
   resolve_services [\<lparr>ar_name = ''sales_by_region'', ar_params = []\<rparr>,
                     \<lparr>ar_name = ''group_and_aggregate'', ar_params = []\<rparr>]
     = Inr ([(''sales_by_region'', [], SalesByRegionService)] @
            (''group_and_aggregate'', [], GroupingService) # []) \<and>
   execute_e1 two_documents init_e1
     = Inr [[(''_id'', JOid ''65a1''), (''n'', JInt 1)], [(''_id'', JOid ''65a2''), (''n'', JInt 2)]] \<and>
   invoke_service idle_pandas two_documents
       (Some [[(''_id'', JOid ''65a1''), (''n'', JInt 1)], [(''_id'', JOid ''65a2''), (''n'', JInt 2)]])
       init_e1 [] GroupingService
     = Inl (ValueError
         ''GroupingService requires 'group_by_columns' (list) and 'aggregations' (dict) in params.'') \<and>
   results (execute_analyses exn_message
       (AVAILABLE_SERVICES_e2 (failing_service ''sales_by_region'')
          (counting_service ''user_activity_summary''))
       (\<lambda>_. 0) False [[(''n'', JInt 1)]] [''sales_by_region'', ''user_activity_summary''] None None)
     = [(''sales_by_region'', JDoc [(''error'', JStr ''could not convert string to float'')]),
        (''user_activity_summary'', JDoc [(''rows'', JInt 1)])] \<and>
   process_e2 exn_message (failing_service ''sales_by_region'') [[(''n'', JInt 1)]] False None None
     = JDoc [(''error'', JStr ''could not convert string to float'')] \<and>
   (\<exists>r. invoke_service idle_pandas two_documents
       (Some [[(''_id'', JOid ''65a1''), (''n'', JInt 1)], [(''_id'', JOid ''65a2''), (''n'', JInt 2)]])
       init_e1 [] SalesByRegionService = Inr r) \<and>
   run_pipeline idle_pandas two_documents (Inr init_e1)
       [\<lparr>ar_name = ''sales_by_region'', ar_params = []\<rparr>,
        \<lparr>ar_name = ''group_and_aggregate'', ar_params = []\<rparr>]
     = Inl (ValueError
         ''GroupingService requires 'group_by_columns' (list) and 'aggregations' (dict) in params.'')"
proof -
  let ?rows = "[[(''_id'', JOid ''65a1''), (''n'', JInt 1)], [(''_id'', JOid ''65a2''), (''n'', JInt 2)]]"
  let ?req = "[\<lparr>ar_name = ''sales_by_region'', ar_params = []\<rparr>,
               \<lparr>ar_name = ''group_and_aggregate'', ar_params = []\<rparr>]"
  let ?pre = "[(''sales_by_region'', [], SalesByRegionService)]"
  let ?e = "ValueError
         ''GroupingService requires 'group_by_columns' (list) and 'aggregations' (dict) in params.''"
  have h1: "process_body (failing_service ''sales_by_region'') [[(''n'', JInt 1)]] False None None
     = Inl (ValueError ''could not convert string to float'')"
    by (simp add: process_body_def failing_service_def)
  have h2: "run_services idle_pandas two_documents (Some ?rows) init_e1 [] ?pre
     = Inr [(''sales_by_region'', JNull)]"
    by (simp add: invoke_service_def process_e1_def sales_process_def idle_pandas_def)
  have h3: "results (execute_analyses exn_message
       (AVAILABLE_SERVICES_e2 (failing_service ''sales_by_region'')
          (counting_service ''user_activity_summary''))
       (\<lambda>_. 0) False [[(''n'', JInt 1)]] [''sales_by_region'', ''user_activity_summary''] None None)
     = [(''sales_by_region'', JDoc [(''error'', JStr ''could not convert string to float'')]),
        (''user_activity_summary'', JDoc [(''rows'', JInt 1)])]"
    by (simp add: execute_analyses_def get_service_def AVAILABLE_SERVICES_e2_def process_e2_def
        process_body_def failing_service_def counting_service_def)
  have h4: "resolve_services ?req = Inr (?pre @ (''group_and_aggregate'', [], GroupingService) # [])"
    by (simp add: AVAILABLE_SERVICES_e1_def)
  have h5: "execute_e1 two_documents init_e1 = Inr ?rows"
    by (simp add: execute_e1_def init_e1_def two_documents_def to_list_def limit_stage_e1_def
        skip_stage_e1_def sort_stage_e1_def)
  have h6: "list_ex (\<lambda>(name, params, s). FETCH_DATA_FIRST s)
              (?pre @ (''group_and_aggregate'', [], GroupingService) # [])"
    by simp
  have h7: "\<forall>(name, params, s) \<in> set ?pre.
              \<exists>r. invoke_service idle_pandas two_documents (Some ?rows) init_e1 params s = Inr r"
    by (simp add: invoke_service_def process_e1_def sales_process_def idle_pandas_def)
  have h8: "invoke_service idle_pandas two_documents (Some ?rows) init_e1 [] GroupingService = Inl ?e"
    by (simp add: invoke_service_def process_e1_def grouping_process_def)
  note t = analysis_failure_isolation [of "[''sales_by_region'', ''user_activity_summary'']" exn_message
        "AVAILABLE_SERVICES_e2 (failing_service ''sales_by_region'')
           (counting_service ''user_activity_summary'')"
        "\<lambda>_. 0" False "[[(''n'', JInt 1)]]" None None
        "failing_service ''sales_by_region''" "[[(''n'', JInt 1)]]"
        "ValueError ''could not convert string to float''"
        idle_pandas two_documents "Some ?rows" init_e1 "[]" ?pre
        "[(''sales_by_region'', JNull)]"
        ?req ?pre "''group_and_aggregate''" "[]" GroupingService "[]" ?rows ?e]
  from t h1 have c2: "process_e2 exn_message (failing_service ''sales_by_region'')
       [[(''n'', JInt 1)]] False None None
     = JDoc [(''error'', JStr ''could not convert string to float'')]"
    by simp
  from t h2 have c3: "\<exists>r. invoke_service idle_pandas two_documents (Some ?rows) init_e1 []
       SalesByRegionService = Inr r"
    by simp
  from t h4 h5 h6 h7 h8 have c4: "run_pipeline idle_pandas two_documents (Inr init_e1) ?req = Inl ?e"
    by blast
  show ?thesis
    apply (intro conjI)
            apply (rule h1)
           apply (rule h2)
          apply (rule h4)
         apply (rule h5)
        apply (rule h8)
       apply (rule h3)
      apply (rule c2)
     apply (rule c3)
    apply (rule c4)
    done
qed

text \<open>
  Claim C4, as stated, at engine 2: \<open>execute_analyses\<close> for the names \<open>nope\<close> and
  \<open>sales_by_region\<close> does not abort the batch; \<open>nope\<close> gets an error entry and
  \<open>sales_by_region\<close> still runs and produces its result.
\<close>

theorem execute_analyses_runs_despite_unknown:
  "results (execute_analyses exn_message
       (AVAILABLE_SERVICES_e2 (counting_service ''sales_by_region'')
          (counting_service ''user_activity_summary''))
       (\<lambda>_. 0) False [[(''n'', JInt 1)]] [''nope'', ''sales_by_region''] None None)
   = [(''nope'', service_not_found ''nope''), (''sales_by_region'', JDoc [(''rows'', JInt 1)])]"
  by (simp add: execute_analyses_def get_service_def AVAILABLE_SERVICES_e2_def process_e2_def
      process_body_def counting_service_def)

text \<open>
  Claim C4, amended: in \<open>run_pipeline\<close> of engine 1, when a requested analysis name is not
  registered the whole batch is aborted with a \<open>ValueError\<close> naming an unregistered
  requested analysis, whatever the base query and the collection are: no analysis
  produces a result. In \<open>execute_analyses\<close> of engine 2 an unregistered name gets the entry
  \<open>{"error": "Analysis service '<name>' not found"}\<close> and every registered name of the
  request still gets the payload of its \<open>process\<close>.
\<close>

theorem unknown_analysis_policy:
  "(r \<in> set requested \<longrightarrow> map_of AVAILABLE_SERVICES_e1 (ar_name r) = None \<longrightarrow>
      (\<exists>n. run_pipeline pd coll base_query requested = Inl (ServiceNotFound n) \<and>
           n \<in> ar_name ` set requested \<and> map_of AVAILABLE_SERVICES_e1 n = None)) \<and>
   (n \<in> set names \<longrightarrow> get_service registry n = None \<longrightarrow>
      map_of (results (execute_analyses str_exn registry elapsed ua raw names qb bq)) n
        = Some (service_not_found n)) \<and>
   (m \<in> set names \<longrightarrow> get_service registry m = Some svc \<longrightarrow>
      map_of (results (execute_analyses str_exn registry elapsed ua raw names qb bq)) m
        = Some (process_e2 str_exn svc raw ua qb bq))"
proof (intro conjI impI)
  assume "r \<in> set requested" "map_of AVAILABLE_SERVICES_e1 (ar_name r) = None"
  from resolve_services_unknown [OF this] obtain n where
    "resolve_services requested = Inl (ServiceNotFound n)"
    "n \<in> ar_name ` set requested" "map_of AVAILABLE_SERVICES_e1 n = None"
    by blast
  then show "\<exists>n. run_pipeline pd coll base_query requested = Inl (ServiceNotFound n) \<and>
           n \<in> ar_name ` set requested \<and> map_of AVAILABLE_SERVICES_e1 n = None"
    by (auto simp: run_pipeline_def)
next
  assume "n \<in> set names" "get_service registry n = None"
  then show "map_of (results (execute_analyses str_exn registry elapsed ua raw names qb bq)) n
        = Some (service_not_found n)"
    using execute_analyses_results [of n names str_exn registry elapsed ua raw qb bq] by simp
next
  assume "m \<in> set names" "get_service registry m = Some svc"
  then show "map_of (results (execute_analyses str_exn registry elapsed ua raw names qb bq)) m
        = Some (process_e2 str_exn svc raw ua qb bq)"
    using execute_analyses_results [of m names str_exn registry elapsed ua raw qb bq] by simp
qed

theorem unknown_analysis_policy_witness:
  "\<lparr>ar_name = ''nope'', ar_params = []\<rparr>
     \<in> set [\<lparr>ar_name = ''sales_by_region'', ar_params = []\<rparr>, \<lparr>ar_name = ''nope'', ar_params = []\<rparr>] \<and>
   map_of AVAILABLE_SERVICES_e1 ''nope'' = None \<and>
   run_pipeline idle_pandas two_documents (Inr init_e1)
     [\<lparr>ar_name = ''sales_by_region'', ar_params = []\<rparr>, \<lparr>ar_name = ''nope'', ar_params = []\<rparr>]
     = Inl (ServiceNotFound ''nope'') \<and>
   ''nope'' \<in> set [''nope'', ''sales_by_region''] \<and>
   ''sales_by_region'' \<in> set [''nope'', ''sales_by_region''] \<and>
   get_service (AVAILABLE_SERVICES_e2 (counting_service ''sales_by_region'')
                  (counting_service ''user_activity_summary'')) ''nope'' = None \<and>
   get_service (AVAILABLE_SERVICES_e2 (counting_service ''sales_by_region'')
                  (counting_service ''user_activity_summary'')) ''sales_by_region''
     = Some (counting_service ''sales_by_region'') \<and>
   map_of (results (execute_analyses exn_message
       (AVAILABLE_SERVICES_e2 (counting_service ''sales_by_region'')
          (counting_service ''user_activity_summary''))
       (\<lambda>_. 0) False [[(''n'', JInt 1)]] [''nope'', ''sales_by_region''] None None)) ''nope''
     = Some (service_not_found ''nope'') \<and>
   map_of (results (execute_analyses exn_message
       (AVAILABLE_SERVICES_e2 (counting_service ''sales_by_region'')
          (counting_service ''user_activity_summary''))
       (\<lambda>_. 0) False [[(''n'', JInt 1)]] [''nope'', ''sales_by_region''] None None))
       ''sales_by_region''
     = Some (JDoc [(''rows'', JInt 1)])"
proof -
  let ?reg = "AVAILABLE_SERVICES_e2 (counting_service ''sales_by_region'')
                (counting_service ''user_activity_summary'')"
  let ?req = "[\<lparr>ar_name = ''sales_by_region'', ar_params = []\<rparr>,
               \<lparr>ar_name = ''nope'', ar_params = []\<rparr>]"
  have h1: "\<lparr>ar_name = ''nope'', ar_params = []\<rparr> \<in> set ?req" by simp
  have h2: "map_of AVAILABLE_SERVICES_e1 (ar_name \<lparr>ar_name = ''nope'', ar_params = []\<rparr>) = None"
    by (simp add: AVAILABLE_SERVICES_e1_def)
  have h3: "''nope'' \<in> set [''nope'', ''sales_by_region'']"
    and h4: "''sales_by_region'' \<in> set [''nope'', ''sales_by_region'']" by simp_all
  have h5: "get_service ?reg ''nope'' = None"
    and h6: "get_service ?reg ''sales_by_region'' = Some (counting_service ''sales_by_region'')"
    by (simp_all add: get_service_def AVAILABLE_SERVICES_e2_def)
  have p: "process_e2 exn_message (counting_service ''sales_by_region'') [[(''n'', JInt 1)]]
             False None None = JDoc [(''rows'', JInt 1)]"
    by (simp add: process_e2_def process_body_def counting_service_def)
  have r: "run_pipeline idle_pandas two_documents (Inr init_e1) ?req = Inl (ServiceNotFound ''nope'')"
    by (simp add: run_pipeline_def AVAILABLE_SERVICES_e1_def)
  from unknown_analysis_policy [of "\<lparr>ar_name = ''nope'', ar_params = []\<rparr>" ?req idle_pandas
      two_documents "Inr init_e1" "''nope''" "[''nope'', ''sales_by_region'']" ?reg exn_message
      "\<lambda>_. 0" False "[[(''n'', JInt 1)]]" None None "''sales_by_region''"
      "counting_service ''sales_by_region''"]
    h1 h2 h3 h4 h5 h6
  have "map_of (results (execute_analyses exn_message ?reg (\<lambda>_. 0) False [[(''n'', JInt 1)]]
            [''nope'', ''sales_by_region''] None None)) ''nope'' = Some (service_not_found ''nope'')"
    and "map_of (results (execute_analyses exn_message ?reg (\<lambda>_. 0) False [[(''n'', JInt 1)]]
            [''nope'', ''sales_by_region''] None None)) ''sales_by_region''
          = Some (process_e2 exn_message (counting_service ''sales_by_region'')
                    [[(''n'', JInt 1)]] False None None)"
    by blast+
  then show ?thesis using h1 h2 h3 h4 h5 h6 p r by simp
qed

section \<open>Analyses on zero rows\<close>














end
